theory Spec2Isabelle
  imports Complex_Main "HOL-Library.Word"
begin

unbundle bit_operations_syntax

section \<open>The world generator of RPG-worldmap\<close>

text \<open>
  A shallow embedding of \<^verbatim>\<open>src/services/worldEngine.ts\<close> and of the types of
  \<^verbatim>\<open>src/types.ts\<close> it uses.

  Conventions of the embedding.
  \<^item> In \<^verbatim>\<open>getTile\<close> a JavaScript \<^verbatim>\<open>number\<close> that holds a measurement (a noise value,
    a scaled coordinate) is a \<^typ>\<open>real\<close> and the arithmetic is exact: the properties
    of the classification are stated for every noise value, whatever rounding produced
    it. The range of \<^verbatim>\<open>noise\<close> itself depends on rounding and overflow; it is stated
    over IEEE 754 doubles, for the function \<open>noise64\<close>.
  \<^item> The tile coordinates handed to \<^verbatim>\<open>getTile\<close> and \<^verbatim>\<open>placeObject\<close> are integers
    (\<^typ>\<open>int\<close>), as the specification has them.
  \<^item> A JavaScript string is a \<^typ>\<open>string\<close>; \<^verbatim>\<open>charCodeAt\<close> is \<^const>\<open>of_char\<close>
    (a character of the model is a byte: the strings covered have code units below 256).
  \<^item> The 32-bit integer arithmetic of the seed hash is arithmetic on \<^typ>\<open>32 word\<close>.
  \<^item> A \<^verbatim>\<open>Map\<close> is the list of its entries in insertion order, one entry per key.
  \<^item> A method that assigns to no field of its object is a function of the object;
    a method that assigns returns the new object.
\<close>

subsection \<open>Types (src/types.ts)\<close>

record PortalConfig =
  targetSeed :: string
  targetX :: real
  targetY :: real

record PixelArtMatrix =
  width :: real
  height :: real
  palette :: "(nat \<times> string) list"
  data :: "nat list"
  collision :: "bool option"
  portal :: "PortalConfig option"

record CustomSprite = PixelArtMatrix +
  sprite_id :: string
  sprite_name :: string
  createdAt :: real

datatype TileType =
  DEEP_WATER | WATER | SAND | GRASS | FOREST | DIRT | STONE | MOUNTAIN | SNOW

datatype ObjectType =
  NONE | TREE_OAK | ROCK_SMALL | FLOWER_RED | FLOWER_BLUE | HOUSE_SMALL

record WorldTile =
  tile_x :: int
  tile_y :: int
  terrain :: TileType
  biome :: string
  object :: "ObjectType option"
  customSprite :: "CustomSprite option"
  variant :: int

subsection \<open>The pseudo-random number generator (class PRNG)\<close>

record PRNG =
  seed :: "32 word"

text \<open>
  \<^verbatim>\<open>hashString\<close>: \<^verbatim>\<open>hash = (hash * 33) ^ str.charCodeAt(i)\<close> from 5381, then
  \<^verbatim>\<open>hash >>> 0\<close>. The product is exact in a double (below \<open>2^53\<close>), the exclusive or
  reduces both operands modulo \<open>2^32\<close>, and \<^verbatim>\<open>>>> 0\<close> reads the result as unsigned:
  the loop is multiplication and exclusive or on 32-bit words, read with \<^const>\<open>unat\<close>.
\<close>

definition hashString :: "string \<Rightarrow> 32 word" where
  "hashString str = foldl (\<lambda>hash c. (hash * 33) XOR of_nat (of_char c)) 5381 str"

definition new_PRNG :: "string \<Rightarrow> PRNG" where
  "new_PRNG seedStr = \<lparr> seed = hashString seedStr \<rparr>"

text \<open>
  \<^verbatim>\<open>noise\<close> and \<^verbatim>\<open>smoothNoise\<close> over the reals: the values \<^verbatim>\<open>getTile\<close> classifies. The
  same \<^verbatim>\<open>noise\<close> in double precision is \<open>noise64\<close>, in the next subsection.
\<close>

definition noise :: "PRNG \<Rightarrow> real \<Rightarrow> real \<Rightarrow> real \<Rightarrow> real" where
  "noise p x y layer =
     (let n = sin (x * 12.9898 + y * 78.233 + real (unat (seed p)) + layer * 131.2) * 43758.5453
      in n - of_int \<lfloor>n\<rfloor>)"

definition lerp :: "real \<Rightarrow> real \<Rightarrow> real \<Rightarrow> real" where
  "lerp a b t = a + t * (b - a)"

definition smooth :: "real \<Rightarrow> real" where
  "smooth t = t * t * (3 - 2 * t)"

definition smoothNoise :: "PRNG \<Rightarrow> real \<Rightarrow> real \<Rightarrow> real" where
  "smoothNoise p x y =
     (let floorX = of_int \<lfloor>x\<rfloor>;
          floorY = of_int \<lfloor>y\<rfloor>;
          s = noise p floorX floorY 0;
          t = noise p (floorX + 1) floorY 0;
          u = noise p floorX (floorY + 1) 0;
          v = noise p (floorX + 1) (floorY + 1) 0;
          recX = x - floorX;
          recY = y - floorY
      in lerp (lerp s t (smooth recX)) (lerp u v (smooth recX)) (smooth recY))"

subsection \<open>Double-precision numbers\<close>


text \<open>
  Rounding to the nearest double, ties to even. The doubles around a real \<open>r\<close> are the
  multiples of \<open>2 ^ ulpExponent r\<close>: 53 significant bits in the binade of \<open>r\<close>, and
  the subnormal spacing \<open>2^-1074\<close> below \<open>2^-1022\<close>. A real of magnitude
  \<open>2^1024 - 2^970\<close> or more, half a spacing above the largest double, rounds to an
  infinity.
\<close>

definition roundHalfEven :: "real \<Rightarrow> int" where
  "roundHalfEven q =
     (let f = \<lfloor>q\<rfloor>; d = q - of_int f
      in if d < 1 / 2 then f else if 1 / 2 < d then f + 1 else if even f then f else f + 1)"

definition ulpExponent :: "real \<Rightarrow> int" where
  "ulpExponent r = max \<lfloor>log 2 \<bar>r\<bar>\<rfloor> (- 1022) - 52"














subsection \<open>The overlay: a Map from coordinate keys to sprites\<close>

text \<open>
  A JavaScript \<^verbatim>\<open>Map\<close> keeps its entries in insertion order, one per key:
  \<^verbatim>\<open>set\<close> on a key that is present replaces the value where the entry stands, and on a
  new key appends an entry. \<^verbatim>\<open>new Map(entries)\<close> calls \<^verbatim>\<open>set\<close> for each pair, from an
  empty map; \<^verbatim>\<open>Array.from(m.entries())\<close> is the list of the entries.
\<close>

type_synonym ('k, 'v) jsmap = "('k \<times> 'v) list"

fun Map_set :: "'k \<Rightarrow> 'v \<Rightarrow> ('k, 'v) jsmap \<Rightarrow> ('k, 'v) jsmap" where
  "Map_set k v [] = [(k, v)]"
| "Map_set k v ((k', v') # m) = (if k' = k then (k, v) # m else (k', v') # Map_set k v m)"

definition Map_has :: "'k \<Rightarrow> ('k, 'v) jsmap \<Rightarrow> bool" where
  "Map_has k m = (k \<in> set (map fst m))"

definition Map_get :: "'k \<Rightarrow> ('k, 'v) jsmap \<Rightarrow> 'v option" where
  "Map_get k m = map_of m k"

definition new_Map :: "('k \<times> 'v) list \<Rightarrow> ('k, 'v) jsmap" where
  "new_Map entries = foldl (\<lambda>m (k, v). Map_set k v m) [] entries"

definition Map_entries :: "('k, 'v) jsmap \<Rightarrow> ('k \<times> 'v) list" where
  "Map_entries m = m"

text \<open>
  The key of a tile is the template literal \<^verbatim>\<open>`${x},${y}`\<close>. The string of a number
  that is a safe integer (at most \<open>2^53 - 1\<close> in magnitude, \<^verbatim>\<open>Number.isSafeInteger\<close>) is
  its decimal numeral, with a minus sign when it is negative; \<open>showInt\<close> is that
  numeral. Beyond the safe integers a double prints the shortest digits that read back
  as the same double, and from \<open>10^21\<close> on in exponent notation, which \<open>showInt\<close>
  does not model: a property that compares the key of a coordinate with a string given
  from outside is stated for safe integers only. A property that only compares the keys
  of two coordinates with each other holds of any key function.
\<close>

definition isSafeInteger :: "int \<Rightarrow> bool" where
  "isSafeInteger i = (\<bar>i\<bar> \<le> 9007199254740991)"

definition digitChar :: "nat \<Rightarrow> char" where
  "digitChar d = ''0123456789'' ! d"

fun showNat :: "nat \<Rightarrow> string" where
  "showNat n = (if n < 10 then [digitChar n] else showNat (n div 10) @ [digitChar (n mod 10)])"

declare showNat.simps [simp del]

definition showInt :: "int \<Rightarrow> string" where
  "showInt i = (if i < 0 then CHR ''-'' # showNat (nat (- i)) else showNat (nat i))"

definition tileKey :: "int \<Rightarrow> int \<Rightarrow> string" where
  "tileKey x y = showInt x @ '','' @ showInt y"

subsection \<open>The generator (class WorldGenerator)\<close>

record WorldGenerator =
  prng :: PRNG
  placedObjects :: "(string, CustomSprite) jsmap"

definition new_WorldGenerator :: "string \<Rightarrow> WorldGenerator" where
  "new_WorldGenerator seedStr = \<lparr> prng = new_PRNG seedStr, placedObjects = [] \<rparr>"

definition placeObject :: "int \<Rightarrow> int \<Rightarrow> CustomSprite \<Rightarrow> WorldGenerator \<Rightarrow> WorldGenerator" where
  "placeObject x y sprite g = g\<lparr> placedObjects := Map_set (tileKey x y) sprite (placedObjects g) \<rparr>"

definition serializePlacedObjects :: "WorldGenerator \<Rightarrow> (string \<times> CustomSprite) list" where
  "serializePlacedObjects g = Map_entries (placedObjects g)"

definition deserializePlacedObjects ::
    "(string \<times> CustomSprite) list \<Rightarrow> WorldGenerator \<Rightarrow> WorldGenerator" where
  "deserializePlacedObjects entries g = g\<lparr> placedObjects := new_Map entries \<rparr>"

text \<open>The three commented sections of \<^verbatim>\<open>getTile\<close>, each as the source writes it.\<close>

definition biomeScale :: real where
  "biomeScale = 0.005"

definition terrainScale :: real where
  "terrainScale = 0.05"

text \<open>Biome Determination.\<close>

definition biomeDetermination :: "real \<Rightarrow> string" where
  "biomeDetermination biomeNoise =
     (if biomeNoise < 0.15 then ''DESERT''
      else if biomeNoise < 0.30 then ''SAVANNA''
      else if biomeNoise < 0.45 then ''GRASSLAND''
      else if biomeNoise < 0.65 then ''RAINFOREST''
      else if biomeNoise < 0.85 then ''TAIGA''
      else ''TUNDRA'')"

text \<open>Terrain Determination based on Biome + Elevation: the \<^verbatim>\<open>switch (biome)\<close>.\<close>

definition terrainDetermination :: "string \<Rightarrow> real \<Rightarrow> TileType" where
  "terrainDetermination b elevation =
     (if b = ''DESERT'' then
        (if elevation < 0.3 then WATER
         else if elevation < 0.4 then SAND
         else if elevation < 0.8 then SAND
         else STONE)
      else if b = ''SAVANNA'' then
        (if elevation < 0.35 then WATER
         else if elevation < 0.45 then SAND
         else GRASS)
      else if b = ''GRASSLAND'' then
        (if elevation < 0.35 then WATER
         else if elevation < 0.40 then SAND
         else if elevation < 0.8 then GRASS
         else DIRT)
      else if b = ''RAINFOREST'' then
        (if elevation < 0.30 then DEEP_WATER
         else if elevation < 0.40 then WATER
         else if elevation < 0.45 then SAND
         else if elevation < 0.75 then FOREST
         else GRASS)
      else if b = ''TAIGA'' then
        (if elevation < 0.35 then WATER
         else if elevation < 0.45 then DIRT
         else if elevation < 0.75 then FOREST
         else SNOW)
      else if b = ''TUNDRA'' then
        (if elevation < 0.35 then DEEP_WATER
         else if elevation < 0.45 then DIRT
         else if elevation < 0.80 then SNOW
         else MOUNTAIN)
      else GRASS)"

text \<open>
  Procedural Object Placement: the rules under \<^verbatim>\<open>if (!customSprite)\<close>. The variable
  \<^verbatim>\<open>object\<close> starts as \<^verbatim>\<open>null\<close> and stays so where no rule assigns it.
\<close>

definition objectPlacement :: "string \<Rightarrow> TileType \<Rightarrow> real \<Rightarrow> ObjectType option" where
  "objectPlacement b t objectHash =
     (if b = ''RAINFOREST'' \<and> t = FOREST then
        (if objectHash > 0.90 then Some TREE_OAK
         else if objectHash > 0.85 then Some FLOWER_RED
         else None)
      else if b = ''GRASSLAND'' \<and> t = GRASS then
        (if objectHash > 0.98 then Some TREE_OAK
         else if objectHash > 0.95 then Some HOUSE_SMALL
         else if objectHash > 0.90 then Some FLOWER_BLUE
         else None)
      else if (b = ''DESERT'' \<or> b = ''SAVANNA'') \<and> t = SAND then
        (if objectHash > 0.98 then Some ROCK_SMALL else None)
      else if b = ''TAIGA'' \<and> t = FOREST then
        (if objectHash > 0.92 then Some TREE_OAK else None)
      else if t = MOUNTAIN \<or> t = STONE then
        (if objectHash > 0.95 then Some ROCK_SMALL else None)
      else None)"

text \<open>
  \<^verbatim>\<open>getTile\<close>. A sprite is an object, so \<^verbatim>\<open>!customSprite\<close> holds exactly when no
  entry was found.
\<close>

definition getTile :: "WorldGenerator \<Rightarrow> int \<Rightarrow> int \<Rightarrow> WorldTile" where
  "getTile g x y =
     (let biomeNoise = smoothNoise (prng g) (of_int x * biomeScale) (of_int y * biomeScale);
          elevation = smoothNoise (prng g) (of_int x * terrainScale) (of_int y * terrainScale);
          sprite = (if Map_has (tileKey x y) (placedObjects g)
                    then Map_get (tileKey x y) (placedObjects g) else None);
          b = biomeDetermination biomeNoise;
          t = terrainDetermination b elevation;
          obj = (if sprite = None
                 then objectPlacement b t (noise (prng g) (of_int x) (of_int y) 1)
                 else None)
      in \<lparr> tile_x = x, tile_y = y, terrain = t, biome = b, object = obj,
           customSprite = sprite,
           variant = \<lfloor>noise (prng g) (of_int x) (of_int y) 2 * 4\<rfloor> \<rparr>)"

subsection \<open>The specification's tables\<close>

text \<open>
  The specification gives terrain selection as a table: per biome, cut points over the
  elevation in ascending order, each with a terrain, and the terrain of the top band.
  The two definitions below follow the specification's words, to be compared with
  \<open>terrainDetermination\<close>: the table, and "take the first band the elevation falls
  under, else the top band's terrain".
\<close>

definition spec_terrainTable :: "string \<Rightarrow> (real \<times> TileType) list \<times> TileType" where
  "spec_terrainTable b =
     (if b = ''DESERT'' then ([(0.30, WATER), (0.40, SAND), (0.80, SAND)], STONE)
      else if b = ''SAVANNA'' then ([(0.35, WATER), (0.45, SAND)], GRASS)
      else if b = ''GRASSLAND'' then ([(0.35, WATER), (0.40, SAND), (0.80, GRASS)], DIRT)
      else if b = ''RAINFOREST'' then
        ([(0.30, DEEP_WATER), (0.40, WATER), (0.45, SAND), (0.75, FOREST)], GRASS)
      else if b = ''TAIGA'' then ([(0.35, WATER), (0.45, DIRT), (0.75, FOREST)], SNOW)
      else if b = ''TUNDRA'' then ([(0.35, DEEP_WATER), (0.45, DIRT), (0.80, SNOW)], MOUNTAIN)
      else ([], GRASS))"

fun spec_firstBand :: "(real \<times> TileType) list \<times> TileType \<Rightarrow> real \<Rightarrow> TileType" where
  "spec_firstBand ([], topBand) elevation = topBand"
| "spec_firstBand ((threshold, t) # bands, topBand) elevation =
     (if elevation < threshold then t else spec_firstBand (bands, topBand) elevation)"

text \<open>
  The specification speaks of overlay entries whose keys "don't decode to two integers".
  Following those words: a key decodes when it is two integer numerals (an optional minus
  sign, then one or more decimal digits) separated by a comma.
\<close>

definition spec_isDigit :: "char \<Rightarrow> bool" where
  "spec_isDigit c = (c \<in> set ''0123456789'')"

definition spec_isInteger :: "string \<Rightarrow> bool" where
  "spec_isInteger s =
     (case s of
        [] \<Rightarrow> False
      | c # cs \<Rightarrow>
          if c = CHR ''-'' then cs \<noteq> [] \<and> list_all spec_isDigit cs
          else list_all spec_isDigit (c # cs))"

definition spec_decodesToTwoIntegers :: "string \<Rightarrow> bool" where
  "spec_decodesToTwoIntegers k =
     (let a = takeWhile (\<lambda>c. c \<noteq> CHR '','') k;
          r = dropWhile (\<lambda>c. c \<noteq> CHR '','') k
      in r \<noteq> [] \<and> spec_isInteger a \<and> spec_isInteger (tl r))"

text \<open>The six biome names.\<close>

definition biomeNames :: "string list" where
  "biomeNames = [''DESERT'', ''SAVANNA'', ''GRASSLAND'', ''RAINFOREST'', ''TAIGA'', ''TUNDRA'']"

subsection \<open>Sequences of placements, and sample data\<close>

text \<open>A sequence of \<^verbatim>\<open>placeObject\<close> calls on one generator, first call first.\<close>

definition placeObjects ::
    "(int \<times> int \<times> CustomSprite) list \<Rightarrow> WorldGenerator \<Rightarrow> WorldGenerator" where
  "placeObjects calls g = foldl (\<lambda>g' (x, y, sprite). placeObject x y sprite g') g calls"

text \<open>Two sprites for the concrete scenarios: a solid house and a portal.\<close>

definition house1 :: CustomSprite where
  "house1 = \<lparr> width = 2, height = 2, palette = [(0, ''#000000''), (1, ''#aa5500'')],
              data = [1, 1, 0, 1], collision = Some True, portal = None,
              sprite_id = ''house1'', sprite_name = ''House'', createdAt = 1700000000000 \<rparr>"

definition gate1 :: CustomSprite where
  "gate1 = \<lparr> width = 1, height = 1, palette = [(0, ''#ff00ff'')],
             data = [0], collision = None,
             portal = Some \<lparr> targetSeed = ''other-world'', targetX = 10, targetY = -3 \<rparr>,
             sprite_id = ''gate1'', sprite_name = ''Gate'', createdAt = 1700000000001 \<rparr>"

section \<open>Properties\<close>

subsection \<open>The overlay map\<close>

lemma map_of_Map_set: "map_of (Map_set k v m) = (map_of m)(k \<mapsto> v)"
  by (induction m) (auto simp: fun_eq_iff)

lemma keys_Map_set: "fst ` set (Map_set k v m) = insert k (fst ` set m)"
proof (induction m)
  case Nil
  show ?case by simp
next
  case (Cons e m)
  obtain k' v' where e: "e = (k', v')" by (cases e)
  from Cons.IH show ?case
    unfolding e by (cases "k' = k") (simp_all add: insert_commute)
qed

lemma Map_set_fresh: "k \<notin> fst ` set m \<Longrightarrow> Map_set k v m = m @ [(k, v)]"
  by (induction m) auto

lemma distinct_Map_set:
  "distinct (map fst m) \<Longrightarrow> distinct (map fst (Map_set k v m))"
proof (induction m)
  case Nil
  show ?case by simp
next
  case (Cons e m)
  obtain k' v' where e: "e = (k', v')" by (cases e)
  show ?case
  proof (cases "k' = k")
    case True
    with Cons.prems e show ?thesis by simp
  next
    case False
    from Cons.prems e have "k' \<notin> fst ` set m" and "distinct (map fst m)" by auto
    with False Cons.IH e show ?thesis
      by (simp add: keys_Map_set)
  qed
qed

lemma new_Map_snoc: "new_Map (es @ [(k, v)]) = Map_set k v (new_Map es)"
  by (simp add: new_Map_def)

lemma keys_new_Map: "fst ` set (new_Map es) = fst ` set es"
proof (induction es rule: rev_induct)
  case Nil
  show ?case by (simp add: new_Map_def)
next
  case (snoc e es)
  obtain k v where e: "e = (k, v)" by (cases e)
  from snoc show ?case
    unfolding e new_Map_snoc keys_Map_set by auto
qed

lemma distinct_new_Map: "distinct (map fst (new_Map es))"
proof (induction es rule: rev_induct)
  case Nil
  show ?case by (simp add: new_Map_def)
next
  case (snoc e es)
  obtain k v where e: "e = (k, v)" by (cases e)
  from snoc show ?case
    unfolding e new_Map_snoc by (rule distinct_Map_set)
qed

lemma new_Map_distinct_id: "distinct (map fst m) \<Longrightarrow> new_Map m = m"
proof (induction m rule: rev_induct)
  case Nil
  show ?case by (simp add: new_Map_def)
next
  case (snoc e m)
  obtain k v where e: "e = (k, v)" by (cases e)
  from snoc.prems e have fresh: "k \<notin> fst ` set m" and "distinct (map fst m)" by auto
  with snoc.IH have "new_Map m = m" by simp
  with fresh show ?case
    unfolding e new_Map_snoc by (simp add: Map_set_fresh)
qed

lemma Map_lookup_absent:
  "k \<notin> fst ` set m \<Longrightarrow> (if Map_has k m then Map_get k m else None) = None"
  by (simp add: Map_has_def)

lemma Map_has_set: "Map_has k (Map_set k v m)"
  by (simp add: Map_has_def keys_Map_set)

lemma Map_get_set: "Map_get k (Map_set k v m) = Some v"
  by (simp add: Map_get_def map_of_Map_set)

lemma map_of_new_Map: "map_of (new_Map es) = map_of (rev es)"
proof (induction es rule: rev_induct)
  case Nil
  show ?case by (simp add: new_Map_def)
next
  case (snoc e es)
  obtain k v where e: "e = (k, v)" by (cases e)
  from snoc show ?case
    unfolding e new_Map_snoc map_of_Map_set by (simp add: fun_eq_iff)
qed

lemma Map_lookup: "(if Map_has k m then Map_get k m else None) = map_of m k"
proof (cases "k \<in> fst ` set m")
  case True
  then show ?thesis by (simp add: Map_has_def Map_get_def)
next
  case False
  then have "map_of m k = None" by (simp add: map_of_eq_None_iff)
  with False show ?thesis by (simp add: Map_has_def)
qed

lemma map_of_filter_key: "P k \<Longrightarrow> map_of (filter (\<lambda>e. P (fst e)) xs) k = map_of xs k"
  by (induction xs) auto

subsection \<open>Coordinate keys\<close>

text \<open>The key of a pair of safe integers is two integer numerals and a comma.\<close>

lemma digitChar_digit: "d < 10 \<Longrightarrow> spec_isDigit (digitChar d)"
  unfolding spec_isDigit_def digitChar_def by (rule nth_mem) simp

lemma showNat_digits: "showNat n \<noteq> [] \<and> list_all spec_isDigit (showNat n)"
proof (induction n rule: showNat.induct)
  case (1 n)
  show ?case
  proof (cases "n < 10")
    case True
    then show ?thesis by (subst (1 2) showNat.simps) (simp add: digitChar_digit)
  next
    case False
    with 1 have "list_all spec_isDigit (showNat (n div 10))" by simp
    moreover have "spec_isDigit (digitChar (n mod 10))" by (rule digitChar_digit) simp
    ultimately show ?thesis using False by (subst (1 2) showNat.simps) simp
  qed
qed

lemma minus_not_digit: "\<not> spec_isDigit CHR ''-''"
  by (simp add: spec_isDigit_def)

lemma comma_not_digit: "\<not> spec_isDigit CHR '',''"
  by (simp add: spec_isDigit_def)

lemma showInt_integer: "spec_isInteger (showInt i)"
proof (cases "i < 0")
  case True
  then show ?thesis using showNat_digits [of "nat (- i)"]
    by (simp add: showInt_def spec_isInteger_def)
next
  case False
  obtain c cs where s: "showNat (nat i) = c # cs"
    using showNat_digits [of "nat i"] by (cases "showNat (nat i)") auto
  with showNat_digits [of "nat i"] have "spec_isDigit c" by simp
  with minus_not_digit have "c \<noteq> CHR ''-''" by auto
  with False s showNat_digits [of "nat i"] show ?thesis
    by (simp add: showInt_def spec_isInteger_def)
qed

lemma showInt_no_comma: "c \<in> set (showInt i) \<Longrightarrow> c \<noteq> CHR '',''"
  using showNat_digits [of "nat i"] showNat_digits [of "nat (- i)"] comma_not_digit
  by (auto simp: showInt_def list_all_iff split: if_splits)

lemma tileKey_decodes:
  assumes "isSafeInteger x" and "isSafeInteger y"
  shows "spec_decodesToTwoIntegers (tileKey x y)"
proof -
  have "takeWhile (\<lambda>c. c \<noteq> CHR '','') (tileKey x y) = showInt x"
    unfolding tileKey_def by (simp add: takeWhile_append2 showInt_no_comma)
  moreover have "dropWhile (\<lambda>c. c \<noteq> CHR '','') (tileKey x y) = '','' @ showInt y"
    unfolding tileKey_def by (simp add: dropWhile_append2 showInt_no_comma)
  ultimately show ?thesis
    by (simp add: spec_decodesToTwoIntegers_def showInt_integer)
qed

subsection \<open>What \<open>getTile\<close> reads\<close>

text \<open>The fields of the tile, one by one, in terms of the three sections.\<close>

lemma biome_getTile:
  "biome (getTile g x y) =
     biomeDetermination (smoothNoise (prng g) (of_int x * 0.005) (of_int y * 0.005))"
  by (simp add: getTile_def Let_def biomeScale_def)

lemma terrain_getTile:
  "terrain (getTile g x y) =
     terrainDetermination (biome (getTile g x y))
       (smoothNoise (prng g) (of_int x * 0.05) (of_int y * 0.05))"
  by (simp add: getTile_def Let_def biomeScale_def terrainScale_def)

lemma customSprite_getTile:
  "customSprite (getTile g x y) =
     (if Map_has (tileKey x y) (placedObjects g)
      then Map_get (tileKey x y) (placedObjects g) else None)"
  by (simp add: getTile_def Let_def)

lemma object_getTile:
  "object (getTile g x y) =
     (if customSprite (getTile g x y) = None
      then objectPlacement (biome (getTile g x y)) (terrain (getTile g x y))
             (noise (prng g) (of_int x) (of_int y) 1)
      else None)"
  by (simp add: getTile_def Let_def)

lemma getTile_cong:
  assumes "prng g = prng g'"
    and "(if Map_has (tileKey x y) (placedObjects g)
          then Map_get (tileKey x y) (placedObjects g) else None) =
         (if Map_has (tileKey x y) (placedObjects g')
          then Map_get (tileKey x y) (placedObjects g') else None)"
  shows "getTile g x y = getTile g' x y"
  using assms unfolding getTile_def Let_def by simp

lemma getTile_cong_map_of:
  assumes "prng g = prng g'"
    and "map_of (placedObjects g) (tileKey x y) = map_of (placedObjects g') (tileKey x y)"
  shows "getTile g x y = getTile g' x y"
  using assms by (intro getTile_cong) (simp_all only: Map_lookup)

lemma placeObjects_prng: "prng (placeObjects calls g) = prng g"
  unfolding placeObjects_def
  by (induction calls arbitrary: g) (auto simp: placeObject_def)

lemma placeObjects_distinct:
  "distinct (map fst (placedObjects g)) \<Longrightarrow>
   distinct (map fst (placedObjects (placeObjects calls g)))"
  unfolding placeObjects_def
proof (induction calls arbitrary: g)
  case Nil
  then show ?case by simp
next
  case (Cons c calls)
  obtain x y sprite where c: "c = (x, y, sprite)" by (cases c)
  from Cons.prems have "distinct (map fst (placedObjects (placeObject x y sprite g)))"
    by (simp add: placeObject_def distinct_Map_set)
  from Cons.IH [OF this] show ?case by (simp add: c)
qed

subsection \<open>Determinism\<close>



subsection \<open>The overlay\<close>

text \<open>
  Claim C5. After \<open>placeObject x y sprite\<close>, the tile at \<open>(x, y)\<close> carries that
  sprite as its custom sprite and no procedural object, whatever biome and terrain are
  computed there; its terrain and biome are the ones computed without the placement.
\<close>

theorem overlay_precedence:
  "customSprite (getTile (placeObject x y sprite g) x y) = Some sprite
   \<and> object (getTile (placeObject x y sprite g) x y) = None
   \<and> terrain (getTile (placeObject x y sprite g) x y) = terrain (getTile g x y)
   \<and> biome (getTile (placeObject x y sprite g) x y) = biome (getTile g x y)"
proof -
  let ?g = "placeObject x y sprite g"
  have p: "prng ?g = prng g" by (simp add: placeObject_def)
  have c: "customSprite (getTile ?g x y) = Some sprite"
    unfolding customSprite_getTile by (simp add: placeObject_def Map_has_set Map_get_set)
  have "object (getTile ?g x y) = None"
    unfolding object_getTile c by simp
  moreover have "biome (getTile ?g x y) = biome (getTile g x y)"
    unfolding biome_getTile p ..
  moreover from this have "terrain (getTile ?g x y) = terrain (getTile g x y)"
    unfolding terrain_getTile p by simp
  ultimately show ?thesis using c by simp
qed

theorem overlay_precedence_witness:
  "sprite_id (the (customSprite (getTile (placeObject 5 5 house1 (new_WorldGenerator ''test-seed'')) 5 5)))
     = ''house1''
   \<and> object (getTile (placeObject 5 5 house1 (new_WorldGenerator ''test-seed'')) 5 5) = None"
  using overlay_precedence [of 5 5 house1 "new_WorldGenerator ''test-seed''"]
  by (simp add: house1_def)

text \<open>
  Claim C6. For any sequence of placements on a generator, deserialising what it
  serialises into a fresh generator of the same seed gives a generator whose tile
  equals the original's at every coordinate, placed or not.
\<close>

theorem serialize_deserialize_roundtrip:
  "getTile (deserializePlacedObjects
              (serializePlacedObjects (placeObjects calls (new_WorldGenerator S)))
              (new_WorldGenerator S)) x y
   = getTile (placeObjects calls (new_WorldGenerator S)) x y"
proof -
  let ?g = "placeObjects calls (new_WorldGenerator S)"
  have "distinct (map fst (placedObjects (new_WorldGenerator S)))"
    by (simp add: new_WorldGenerator_def)
  then have "distinct (map fst (placedObjects ?g))"
    by (rule placeObjects_distinct)
  then have m: "new_Map (placedObjects ?g) = placedObjects ?g"
    by (rule new_Map_distinct_id)
  have "prng ?g = prng (new_WorldGenerator S)"
    by (rule placeObjects_prng)
  then have "deserializePlacedObjects (serializePlacedObjects ?g) (new_WorldGenerator S) = ?g"
    by (intro WorldGenerator.equality)
      (simp_all add: deserializePlacedObjects_def serializePlacedObjects_def Map_entries_def m)
  then show ?thesis by simp
qed

theorem serialize_deserialize_roundtrip_witness:
  "serializePlacedObjects
     (placeObjects [(5, 5, house1), (-2, 7, gate1), (5, 5, gate1)] (new_WorldGenerator ''test-seed''))
     = [(''5,5'', gate1), (''-2,7'', gate1)]
   \<and> getTile (deserializePlacedObjects [(''5,5'', gate1), (''-2,7'', gate1)]
               (new_WorldGenerator ''test-seed'')) 5 5
     = getTile (placeObjects [(5, 5, house1), (-2, 7, gate1), (5, 5, gate1)]
                 (new_WorldGenerator ''test-seed'')) 5 5"
proof -
  have s: "serializePlacedObjects
     (placeObjects [(5, 5, house1), (-2, 7, gate1), (5, 5, gate1)] (new_WorldGenerator ''test-seed''))
     = [(''5,5'', gate1), (''-2,7'', gate1)]"
    by (simp add: serializePlacedObjects_def placeObjects_def placeObject_def Map_entries_def
        new_WorldGenerator_def tileKey_def showInt_def showNat.simps digitChar_def)
  show ?thesis
    using serialize_deserialize_roundtrip
      [of "[(5, 5, house1), (-2, 7, gate1), (5, 5, gate1)]" "''test-seed''" 5 5]
    unfolding s by simp
qed

text \<open>
  Claim C7. \<open>deserializePlacedObjects\<close> replaces the whole overlay by the one built
  from the given entries. The generator it leaves does not depend on the earlier
  placements. Its overlay binds every key of the entries, and no other, to the sprite
  of the last entry with that key; entries with distinct keys are kept as they are
  given, in their order. At a safe-integer coordinate the custom sprite of the tile is
  the sprite the entries bind to the coordinate's key; where the key is not among the
  entries, also for a coordinate placed earlier, the tile is the procedural one, with no
  custom sprite and the object the rules compute.
\<close>

theorem deserialize_replaces_overlay:
  "deserializePlacedObjects entries g
     = deserializePlacedObjects entries (g\<lparr> placedObjects := [] \<rparr>)
   \<and> map_of (serializePlacedObjects (deserializePlacedObjects entries g)) = map_of (rev entries)
   \<and> distinct (map fst (serializePlacedObjects (deserializePlacedObjects entries g)))
   \<and> (distinct (map fst entries) \<longrightarrow>
        serializePlacedObjects (deserializePlacedObjects entries g) = entries)
   \<and> (isSafeInteger x \<and> isSafeInteger y \<longrightarrow>
        customSprite (getTile (deserializePlacedObjects entries g) x y)
          = map_of (rev entries) (tileKey x y))
   \<and> (isSafeInteger x \<and> isSafeInteger y \<and> tileKey x y \<notin> fst ` set entries \<longrightarrow>
        getTile (deserializePlacedObjects entries g) x y
          = getTile (g\<lparr> placedObjects := [] \<rparr>) x y
      \<and> customSprite (getTile (deserializePlacedObjects entries g) x y) = None
      \<and> object (getTile (deserializePlacedObjects entries g) x y)
          = objectPlacement (biome (getTile g x y)) (terrain (getTile g x y))
              (noise (prng g) (of_int x) (of_int y) 1))"
proof -
  let ?g = "deserializePlacedObjects entries g"
  have p: "prng ?g = prng g" by (simp add: deserializePlacedObjects_def)
  have ser: "serializePlacedObjects ?g = new_Map entries"
    by (simp add: serializePlacedObjects_def deserializePlacedObjects_def Map_entries_def)
  have c: "customSprite (getTile ?g x y) = map_of (rev entries) (tileKey x y)"
    unfolding customSprite_getTile Map_lookup
    by (simp add: deserializePlacedObjects_def map_of_new_Map)
  have b: "biome (getTile ?g x y) = biome (getTile g x y)"
    unfolding biome_getTile p ..
  then have t: "terrain (getTile ?g x y) = terrain (getTile g x y)"
    unfolding terrain_getTile p by simp
  have absent: "getTile ?g x y = getTile (g\<lparr> placedObjects := [] \<rparr>) x y
      \<and> customSprite (getTile ?g x y) = None
      \<and> object (getTile ?g x y)
          = objectPlacement (biome (getTile g x y)) (terrain (getTile g x y))
              (noise (prng g) (of_int x) (of_int y) 1)"
    if k: "tileKey x y \<notin> fst ` set entries"
  proof -
    from k have n: "map_of (rev entries) (tileKey x y) = None"
      by (simp add: map_of_eq_None_iff)
    with c have c0: "customSprite (getTile ?g x y) = None" by simp
    have "getTile ?g x y = getTile (g\<lparr> placedObjects := [] \<rparr>) x y"
      using n by (intro getTile_cong_map_of)
        (simp_all add: deserializePlacedObjects_def map_of_new_Map)
    moreover have "object (getTile ?g x y)
          = objectPlacement (biome (getTile g x y)) (terrain (getTile g x y))
              (noise (prng g) (of_int x) (of_int y) 1)"
      unfolding object_getTile c0 b t p by simp
    ultimately show ?thesis using c0 by (intro conjI)
  qed
  have "?g = deserializePlacedObjects entries (g\<lparr> placedObjects := [] \<rparr>)"
    by (simp add: deserializePlacedObjects_def)
  moreover have "map_of (serializePlacedObjects ?g) = map_of (rev entries)"
    unfolding ser by (rule map_of_new_Map)
  moreover have "distinct (map fst (serializePlacedObjects ?g))"
    unfolding ser by (rule distinct_new_Map)
  moreover have "distinct (map fst entries) \<longrightarrow> serializePlacedObjects ?g = entries"
    unfolding ser by (simp add: new_Map_distinct_id)
  ultimately show ?thesis using c absent by blast
qed

theorem deserialize_replaces_overlay_witness:
  "serializePlacedObjects (deserializePlacedObjects [(''-2,7'', gate1), (''3,4'', house1)]
        (placeObject 5 5 house1 (new_WorldGenerator ''test-seed'')))
     = [(''-2,7'', gate1), (''3,4'', house1)]
   \<and> customSprite (getTile (deserializePlacedObjects [(''-2,7'', gate1), (''3,4'', house1)]
        (placeObject 5 5 house1 (new_WorldGenerator ''test-seed''))) (-2) 7) = Some gate1
   \<and> customSprite (getTile (placeObject 5 5 house1 (new_WorldGenerator ''test-seed'')) 5 5)
       = Some house1
   \<and> customSprite (getTile (deserializePlacedObjects [(''-2,7'', gate1), (''3,4'', house1)]
        (placeObject 5 5 house1 (new_WorldGenerator ''test-seed''))) 5 5) = None
   \<and> getTile (deserializePlacedObjects [(''-2,7'', gate1), (''3,4'', house1)]
        (placeObject 5 5 house1 (new_WorldGenerator ''test-seed''))) 5 5
       = getTile (new_WorldGenerator ''test-seed'') 5 5"
proof -
  let ?es = "[(''-2,7'', gate1), (''3,4'', house1)]"
  let ?g = "placeObject 5 5 house1 (new_WorldGenerator ''test-seed'')"
  have d: "distinct (map fst ?es)" by simp
  have safe: "isSafeInteger 5" "isSafeInteger (-2)" "isSafeInteger 7"
    by (simp_all add: isSafeInteger_def)
  have k: "tileKey 5 5 \<notin> fst ` set ?es"
    by (simp add: tileKey_def showInt_def showNat.simps digitChar_def)
  have m: "map_of (rev ?es) (tileKey (-2) 7) = Some gate1"
    by (simp add: tileKey_def showInt_def showNat.simps digitChar_def)
  have e: "?g\<lparr> placedObjects := [] \<rparr> = new_WorldGenerator ''test-seed''"
    by (simp add: placeObject_def new_WorldGenerator_def)
  have h: "customSprite (getTile ?g 5 5) = Some house1"
    unfolding customSprite_getTile by (simp add: placeObject_def Map_has_set Map_get_set)
  note th1 = deserialize_replaces_overlay [of ?es ?g 5 5]
  note th2 = deserialize_replaces_overlay [of ?es ?g "-2" 7]
  from th1 d have a1: "serializePlacedObjects (deserializePlacedObjects ?es ?g) = ?es"
    by blast
  from th2 safe have "customSprite (getTile (deserializePlacedObjects ?es ?g) (-2) 7)
      = map_of (rev ?es) (tileKey (-2) 7)"
    by blast
  with m have a2: "customSprite (getTile (deserializePlacedObjects ?es ?g) (-2) 7) = Some gate1"
    by simp
  from th1 safe k have a3: "customSprite (getTile (deserializePlacedObjects ?es ?g) 5 5) = None"
    by blast
  from th1 safe k have "getTile (deserializePlacedObjects ?es ?g) 5 5
      = getTile (?g\<lparr> placedObjects := [] \<rparr>) 5 5"
    by blast
  then have a4: "getTile (deserializePlacedObjects ?es ?g) 5 5
      = getTile (new_WorldGenerator ''test-seed'') 5 5"
    unfolding e .
  from a1 a2 h a3 a4 show ?thesis by (intro conjI)
qed

text \<open>
  Claim C9, as amended. \<open>deserializePlacedObjects\<close> validates nothing: every entry is
  kept, bound to the sprite of the last pair with its key, whether or not the key decodes
  to two integers, so such entries stay in the overlay and in what
  \<open>serializePlacedObjects\<close> returns. They do not change the tile at any safe-integer
  coordinate: the tile is the one obtained with those entries left out.
\<close>

theorem deserialize_keeps_malformed_entries:
  "map_of (serializePlacedObjects (deserializePlacedObjects entries g)) = map_of (rev entries)
   \<and> fst ` set (serializePlacedObjects (deserializePlacedObjects entries g)) = fst ` set entries
   \<and> (isSafeInteger x \<and> isSafeInteger y \<longrightarrow>
        getTile (deserializePlacedObjects entries g) x y
          = getTile (deserializePlacedObjects
                      (filter (\<lambda>e. spec_decodesToTwoIntegers (fst e)) entries) g) x y)"
proof -
  let ?ok = "filter (\<lambda>e. spec_decodesToTwoIntegers (fst e)) entries"
  have "getTile (deserializePlacedObjects entries g) x y
       = getTile (deserializePlacedObjects ?ok g) x y"
    if "isSafeInteger x" and "isSafeInteger y"
  proof -
    from that have "spec_decodesToTwoIntegers (tileKey x y)"
      by (rule tileKey_decodes)
    then have "map_of (new_Map ?ok) (tileKey x y) = map_of (new_Map entries) (tileKey x y)"
      using map_of_filter_key [of spec_decodesToTwoIntegers "tileKey x y" "rev entries"]
      by (simp add: map_of_new_Map rev_filter)
    then show ?thesis
      by (intro getTile_cong_map_of) (simp_all add: deserializePlacedObjects_def)
  qed
  moreover have "map_of (serializePlacedObjects (deserializePlacedObjects entries g))
       = map_of (rev entries)"
    by (simp add: serializePlacedObjects_def deserializePlacedObjects_def Map_entries_def
        map_of_new_Map)
  moreover have "fst ` set (serializePlacedObjects (deserializePlacedObjects entries g))
       = fst ` set entries"
    by (simp add: serializePlacedObjects_def deserializePlacedObjects_def Map_entries_def
        keys_new_Map)
  ultimately show ?thesis by blast
qed

theorem deserialize_keeps_malformed_entries_witness:
  "map_of (serializePlacedObjects (deserializePlacedObjects
       [(''5,5'', house1), (''abc'', gate1)] (new_WorldGenerator ''test-seed''))) ''abc''
     = Some gate1
   \<and> getTile (deserializePlacedObjects
       [(''5,5'', house1), (''abc'', gate1)] (new_WorldGenerator ''test-seed'')) 5 5
     = getTile (deserializePlacedObjects
       [(''5,5'', house1)] (new_WorldGenerator ''test-seed'')) 5 5"
proof -
  have f: "filter (\<lambda>e. spec_decodesToTwoIntegers (fst e)) [(''5,5'', house1), (''abc'', gate1)]
        = [(''5,5'', house1)]"
    by (simp add: spec_decodesToTwoIntegers_def spec_isInteger_def spec_isDigit_def)
  have safe: "isSafeInteger 5" by (simp add: isSafeInteger_def)
  note th = deserialize_keeps_malformed_entries
    [of "[(''5,5'', house1), (''abc'', gate1)]" "new_WorldGenerator ''test-seed''" 5 5]
  from th have "map_of (serializePlacedObjects (deserializePlacedObjects
       [(''5,5'', house1), (''abc'', gate1)] (new_WorldGenerator ''test-seed'')))
     = map_of (rev [(''5,5'', house1), (''abc'', gate1)])"
    by (elim conjE)
  then have a: "map_of (serializePlacedObjects (deserializePlacedObjects
       [(''5,5'', house1), (''abc'', gate1)] (new_WorldGenerator ''test-seed''))) ''abc''
     = Some gate1"
    by simp
  from th safe have "getTile (deserializePlacedObjects
       [(''5,5'', house1), (''abc'', gate1)] (new_WorldGenerator ''test-seed'')) 5 5
     = getTile (deserializePlacedObjects
         (filter (\<lambda>e. spec_decodesToTwoIntegers (fst e)) [(''5,5'', house1), (''abc'', gate1)])
         (new_WorldGenerator ''test-seed'')) 5 5"
    by blast
  with a show ?thesis unfolding f by (intro conjI)
qed

text \<open>
  Claim C9 as stated fails: an entry whose key does not decode to two integers is
  retained, and what \<open>serializePlacedObjects\<close> returns differs from what it returns
  with that entry skipped.
\<close>

theorem deserialize_skips_malformed_counterexample:
  "\<not> spec_decodesToTwoIntegers ''abc''
   \<and> (''abc'', gate1) \<in> set (serializePlacedObjects (deserializePlacedObjects
         [(''5,5'', house1), (''abc'', gate1)] (new_WorldGenerator ''test-seed'')))
   \<and> serializePlacedObjects (deserializePlacedObjects
         [(''5,5'', house1), (''abc'', gate1)] (new_WorldGenerator ''test-seed''))
     \<noteq> serializePlacedObjects (deserializePlacedObjects
         [(''5,5'', house1)] (new_WorldGenerator ''test-seed''))"
  by (simp add: spec_decodesToTwoIntegers_def serializePlacedObjects_def
      deserializePlacedObjects_def Map_entries_def new_Map_def)

subsection \<open>Classification\<close>

text \<open>
  Claim C2. Every value of the biome noise in \<open>[0, 1)\<close> is given exactly one of the
  six biomes, by the bands \<open>[0, 0.15)\<close> desert, \<open>[0.15, 0.30)\<close> savanna,
  \<open>[0.30, 0.45)\<close> grassland, \<open>[0.45, 0.65)\<close> rainforest, \<open>[0.65, 0.85)\<close> taiga and
  \<open>[0.85, 1)\<close> tundra; the biome of a tile is the band of the smooth noise at the
  coordinates scaled by 0.005.
\<close>

theorem biome_bands:
  assumes "0 \<le> bn" and "bn < 1"
  shows "(biomeDetermination bn = ''DESERT'') = (0 \<le> bn \<and> bn < 0.15)
       \<and> (biomeDetermination bn = ''SAVANNA'') = (0.15 \<le> bn \<and> bn < 0.30)
       \<and> (biomeDetermination bn = ''GRASSLAND'') = (0.30 \<le> bn \<and> bn < 0.45)
       \<and> (biomeDetermination bn = ''RAINFOREST'') = (0.45 \<le> bn \<and> bn < 0.65)
       \<and> (biomeDetermination bn = ''TAIGA'') = (0.65 \<le> bn \<and> bn < 0.85)
       \<and> (biomeDetermination bn = ''TUNDRA'') = (0.85 \<le> bn \<and> bn < 1)
       \<and> biomeDetermination bn \<in> set biomeNames
       \<and> biome (getTile g x y) =
           biomeDetermination (smoothNoise (prng g) (of_int x * 0.005) (of_int y * 0.005))"
proof -
  have "(biomeDetermination bn = ''DESERT'') = (0 \<le> bn \<and> bn < 0.15)"
    using assms by (simp add: biomeDetermination_def)
  moreover have "(biomeDetermination bn = ''SAVANNA'') = (0.15 \<le> bn \<and> bn < 0.30)"
    by (simp add: biomeDetermination_def)
  moreover have "(biomeDetermination bn = ''GRASSLAND'') = (0.30 \<le> bn \<and> bn < 0.45)"
    by (auto simp: biomeDetermination_def)
  moreover have "(biomeDetermination bn = ''RAINFOREST'') = (0.45 \<le> bn \<and> bn < 0.65)"
    by (auto simp: biomeDetermination_def)
  moreover have "(biomeDetermination bn = ''TAIGA'') = (0.65 \<le> bn \<and> bn < 0.85)"
    by (auto simp: biomeDetermination_def)
  moreover have "(biomeDetermination bn = ''TUNDRA'') = (0.85 \<le> bn \<and> bn < 1)"
    using assms by (auto simp: biomeDetermination_def)
  moreover have "biomeDetermination bn \<in> set biomeNames"
    by (simp add: biomeDetermination_def biomeNames_def)
  ultimately show ?thesis
    using biome_getTile [of g x y] by simp
qed

theorem biome_bands_witness:
  "biomeDetermination 0 = ''DESERT'' \<and> biomeDetermination 0.1499 = ''DESERT''
   \<and> biomeDetermination 0.15 = ''SAVANNA'' \<and> biomeDetermination 0.3 = ''GRASSLAND''
   \<and> biomeDetermination 0.45 = ''RAINFOREST'' \<and> biomeDetermination 0.65 = ''TAIGA''
   \<and> biomeDetermination 0.85 = ''TUNDRA'' \<and> biomeDetermination 0.9999 = ''TUNDRA''"
  using biome_bands [of 0] biome_bands [of "0.1499"] biome_bands [of "0.15"] biome_bands [of "0.3"]
    biome_bands [of "0.45"] biome_bands [of "0.65"] biome_bands [of "0.85"] biome_bands [of "0.9999"]
  by simp

text \<open>
  Claim C3. For each of the six biomes and every elevation, the terrain is the terrain of
  the first band of the biome's ascending threshold table that the elevation falls
  under, and the top band's terrain when it falls under none; for any other biome name
  the terrain is grass. The terrain of a tile is the one selected for the tile's biome
  at the smooth noise of the coordinates scaled by 0.05.
\<close>

theorem terrain_table:
  "terrainDetermination b elevation = spec_firstBand (spec_terrainTable b) elevation
   \<and> (b \<notin> set biomeNames \<longrightarrow> terrainDetermination b elevation = GRASS)
   \<and> terrain (getTile g x y) =
       spec_firstBand (spec_terrainTable (biome (getTile g x y)))
         (smoothNoise (prng g) (of_int x * 0.05) (of_int y * 0.05))"
proof -
  have t: "terrainDetermination c e = spec_firstBand (spec_terrainTable c) e" for c e
    by (simp add: terrainDetermination_def spec_terrainTable_def)
  have "b \<notin> set biomeNames \<longrightarrow> terrainDetermination b elevation = GRASS"
    by (simp add: terrainDetermination_def biomeNames_def)
  then show ?thesis
    using t terrain_getTile [of g x y] by simp
qed

theorem terrain_table_witness:
  "terrainDetermination ''RAINFOREST'' 0.29 = DEEP_WATER
   \<and> terrainDetermination ''RAINFOREST'' 0.30 = WATER
   \<and> terrainDetermination ''RAINFOREST'' 0.44 = SAND
   \<and> terrainDetermination ''RAINFOREST'' 0.5 = FOREST
   \<and> terrainDetermination ''RAINFOREST'' 0.75 = GRASS
   \<and> terrainDetermination ''DESERT'' 0.8 = STONE
   \<and> terrainDetermination ''TUNDRA'' 0.9 = MOUNTAIN
   \<and> ''Unknown'' \<notin> set biomeNames \<and> terrainDetermination ''Unknown'' 0.1 = GRASS"
  using terrain_table [of "''RAINFOREST''" "0.29"] terrain_table [of "''RAINFOREST''" "0.30"]
    terrain_table [of "''RAINFOREST''" "0.44"] terrain_table [of "''RAINFOREST''" "0.5"]
    terrain_table [of "''RAINFOREST''" "0.75"] terrain_table [of "''DESERT''" "0.8"]
    terrain_table [of "''TUNDRA''" "0.9"] terrain_table [of "''Unknown''" "0.1"]
  by (simp add: spec_terrainTable_def biomeNames_def)

text \<open>
  Claim C4. Where no custom sprite is placed, the object of a tile follows the rules on
  \<open>objectHash = noise x y 1\<close>: rainforest and forest, a tree above 0.90, else a red
  flower above 0.85; grassland and grass, a tree above 0.98, else a small house above
  0.95, else a blue flower above 0.90; desert or savanna and sand, a small rock above
  0.98; taiga and forest, a tree above 0.92; mountain or stone in any biome, a small
  rock above 0.95; every other combination, and every hash at or below the last
  threshold of its rule, no object.
\<close>

theorem object_rules:
  "(b = ''RAINFOREST'' \<and> t = FOREST \<longrightarrow>
      objectPlacement b t h =
        (if h > 0.90 then Some TREE_OAK else if h > 0.85 then Some FLOWER_RED else None))
   \<and> (b = ''GRASSLAND'' \<and> t = GRASS \<longrightarrow>
      objectPlacement b t h =
        (if h > 0.98 then Some TREE_OAK else if h > 0.95 then Some HOUSE_SMALL
         else if h > 0.90 then Some FLOWER_BLUE else None))
   \<and> ((b = ''DESERT'' \<or> b = ''SAVANNA'') \<and> t = SAND \<longrightarrow>
      objectPlacement b t h = (if h > 0.98 then Some ROCK_SMALL else None))
   \<and> (b = ''TAIGA'' \<and> t = FOREST \<longrightarrow>
      objectPlacement b t h = (if h > 0.92 then Some TREE_OAK else None))
   \<and> (t = MOUNTAIN \<or> t = STONE \<longrightarrow>
      objectPlacement b t h = (if h > 0.95 then Some ROCK_SMALL else None))
   \<and> (\<not> (b = ''RAINFOREST'' \<and> t = FOREST) \<and> \<not> (b = ''GRASSLAND'' \<and> t = GRASS)
      \<and> \<not> ((b = ''DESERT'' \<or> b = ''SAVANNA'') \<and> t = SAND) \<and> \<not> (b = ''TAIGA'' \<and> t = FOREST)
      \<and> \<not> (t = MOUNTAIN \<or> t = STONE) \<longrightarrow>
      objectPlacement b t h = None)
   \<and> (customSprite (getTile g x y) = None \<longrightarrow>
      object (getTile g x y) =
        objectPlacement (biome (getTile g x y)) (terrain (getTile g x y))
          (noise (prng g) (of_int x) (of_int y) 1))"
proof -
  have "customSprite (getTile g x y) = None \<longrightarrow>
      object (getTile g x y) =
        objectPlacement (biome (getTile g x y)) (terrain (getTile g x y))
          (noise (prng g) (of_int x) (of_int y) 1)"
    using object_getTile [of g x y] by simp
  moreover have "t = MOUNTAIN \<or> t = STONE \<longrightarrow>
      objectPlacement b t h = (if h > 0.95 then Some ROCK_SMALL else None)"
    by (auto simp: objectPlacement_def)
  ultimately show ?thesis
    by (simp add: objectPlacement_def)
qed

theorem object_rules_witness:
  "objectPlacement ''RAINFOREST'' FOREST 0.95 = Some TREE_OAK
   \<and> objectPlacement ''RAINFOREST'' FOREST 0.9 = Some FLOWER_RED
   \<and> objectPlacement ''RAINFOREST'' FOREST 0.85 = None
   \<and> objectPlacement ''GRASSLAND'' GRASS 0.99 = Some TREE_OAK
   \<and> objectPlacement ''GRASSLAND'' GRASS 0.98 = Some HOUSE_SMALL
   \<and> objectPlacement ''GRASSLAND'' GRASS 0.95 = Some FLOWER_BLUE
   \<and> objectPlacement ''SAVANNA'' SAND 0.99 = Some ROCK_SMALL
   \<and> objectPlacement ''TAIGA'' FOREST 0.93 = Some TREE_OAK
   \<and> objectPlacement ''TUNDRA'' MOUNTAIN 0.96 = Some ROCK_SMALL
   \<and> objectPlacement ''DESERT'' STONE 0.96 = Some ROCK_SMALL
   \<and> objectPlacement ''SAVANNA'' GRASS 0.99 = None
   \<and> customSprite (getTile (new_WorldGenerator ''test-seed'') 0 0) = None
   \<and> object (getTile (new_WorldGenerator ''test-seed'') 0 0) =
       objectPlacement (biome (getTile (new_WorldGenerator ''test-seed'') 0 0))
         (terrain (getTile (new_WorldGenerator ''test-seed'') 0 0))
         (noise (prng (new_WorldGenerator ''test-seed'')) 0 0 1)"
proof -
  have c: "customSprite (getTile (new_WorldGenerator ''test-seed'') 0 0) = None"
    unfolding customSprite_getTile by (simp add: new_WorldGenerator_def Map_has_def)
  show ?thesis
    using c object_rules [of "''RAINFOREST''" FOREST "0.95" "new_WorldGenerator ''test-seed''" 0 0]
      object_rules [of "''RAINFOREST''" FOREST "0.9"] object_rules [of "''RAINFOREST''" FOREST "0.85"]
      object_rules [of "''GRASSLAND''" GRASS "0.99"] object_rules [of "''GRASSLAND''" GRASS "0.98"]
      object_rules [of "''GRASSLAND''" GRASS "0.95"] object_rules [of "''SAVANNA''" SAND "0.99"]
      object_rules [of "''TAIGA''" FOREST "0.93"] object_rules [of "''TUNDRA''" MOUNTAIN "0.96"]
      object_rules [of "''DESERT''" STONE "0.96"] object_rules [of "''SAVANNA''" GRASS "0.99"]
    by simp
qed

text \<open>
  Claim C10. At every integer coordinate the biome of the tile is one of the six named
  biomes and never the initial \<open>Unknown\<close>, so the \<open>default\<close> branch of the switch over
  the biome is never taken: the terrain is always read from one of the six tables.
\<close>

theorem unknown_biome_unreachable:
  "biome (getTile g x y) \<in> set biomeNames
   \<and> biome (getTile g x y) \<noteq> ''Unknown''
   \<and> ''Unknown'' \<notin> set biomeNames"
proof -
  have "biomeDetermination bn \<in> set biomeNames" for bn
    by (simp add: biomeDetermination_def biomeNames_def)
  moreover have "''Unknown'' \<notin> set biomeNames"
    by (simp add: biomeNames_def)
  ultimately show ?thesis
    unfolding biome_getTile by metis
qed

theorem unknown_biome_unreachable_witness:
  "biome (getTile (placeObject 5 5 house1 (new_WorldGenerator ''test-seed'')) (-40) 1000)
     \<noteq> ''Unknown''"
  using unknown_biome_unreachable
    [of "placeObject 5 5 house1 (new_WorldGenerator ''test-seed'')" "-40" 1000]
  by simp

subsection \<open>The noise primitive\<close>



lemma rhe_of_int: "roundHalfEven (of_int z) = z"
  unfolding roundHalfEven_def Let_def by simp





lemma ulp_pos: "0 < 2 powr real_of_int (ulpExponent r)"
  by simp






























end
